theory Spec2Isabelle
  imports Complex_Main "HOL-Library.AList" "HOL-Library.Word"
begin

section \<open>Python values\<close>

text \<open>
  The SDK (\<^verbatim>\<open>sdk/python/shop/client.py\<close>) is untyped Python: its annotations are not
  enforced, a decoded JSON body is whatever the server sent, and a dataclass stores whatever
  it is given. One datatype of Python values therefore serves for JSON values, for the
  arguments of the router methods and for the decoded entities. A dict is an association
  list in insertion order (its keys are strings throughout the SDK); \<open>PObject c fs\<close> is an
  instance of the dataclass \<open>c\<close> with the fields \<open>fs\<close>; a \<open>datetime\<close> is given by the text
  its \<open>isoformat()\<close> returns. A float is a real number: the SDK does no arithmetic on
  floats, it only tests them for truth and passes them on.
\<close>

datatype OrderStatus = PENDING | PAID | PROCESSING | SHIPPED | DELIVERED | CANCELLED | REFUNDED

datatype WebhookEvent =
    ORDER_CREATED | ORDER_PAID | ORDER_SHIPPED | ORDER_DELIVERED | ORDER_CANCELLED
  | PRODUCT_CREATED | PRODUCT_UPDATED | PRODUCT_DELETED | INVENTORY_LOW

datatype pyval =
    PNone
  | PBool bool
  | PInt int
  | PFloat real
  | PStr string
  | PList "pyval list"
  | PDict "(string \<times> pyval) list"
  | PStatus OrderStatus
  | PEvent WebhookEvent
  | PDatetime string
  | PObject string "(string \<times> pyval) list"

type_synonym pydict = "(string \<times> pyval) list"

text \<open>What the SDK can raise. \<open>ShopAPIError code message details\<close> is the SDK's own typed
  error (client.py 153-160); the others are Python's and the HTTP library's.\<close>

datatype failure = ConnectFailure | ReadFailure

datatype error =
    ShopAPIError pyval pyval pyval
  | AttributeError
  | TypeError
  | ValueError
  | KeyError string
  | UnicodeEncodeError
  | JSONDecodeError
  | RetryError int
  | TransportError failure

fun OrderStatus_value :: "OrderStatus \<Rightarrow> string" where
  "OrderStatus_value PENDING = ''pending''"
| "OrderStatus_value PAID = ''paid''"
| "OrderStatus_value PROCESSING = ''processing''"
| "OrderStatus_value SHIPPED = ''shipped''"
| "OrderStatus_value DELIVERED = ''delivered''"
| "OrderStatus_value CANCELLED = ''cancelled''"
| "OrderStatus_value REFUNDED = ''refunded''"

fun WebhookEvent_value :: "WebhookEvent \<Rightarrow> string" where
  "WebhookEvent_value ORDER_CREATED = ''order.created''"
| "WebhookEvent_value ORDER_PAID = ''order.paid''"
| "WebhookEvent_value ORDER_SHIPPED = ''order.shipped''"
| "WebhookEvent_value ORDER_DELIVERED = ''order.delivered''"
| "WebhookEvent_value ORDER_CANCELLED = ''order.cancelled''"
| "WebhookEvent_value PRODUCT_CREATED = ''product.created''"
| "WebhookEvent_value PRODUCT_UPDATED = ''product.updated''"
| "WebhookEvent_value PRODUCT_DELETED = ''product.deleted''"
| "WebhookEvent_value INVENTORY_LOW = ''inventory.low''"

text \<open>Python's truth test (\<open>if x:\<close>). A member of a \<open>str\<close>-mixed enumeration is tested as
  its string, and every member value here is non-empty; a datetime and a dataclass instance
  are always true.\<close>

fun truthy :: "pyval \<Rightarrow> bool" where
  "truthy PNone = False"
| "truthy (PBool b) = b"
| "truthy (PInt i) = (i \<noteq> 0)"
| "truthy (PFloat x) = (x \<noteq> 0)"
| "truthy (PStr s) = (s \<noteq> [])"
| "truthy (PList xs) = (xs \<noteq> [])"
| "truthy (PDict d) = (d \<noteq> [])"
| "truthy (PStatus m) = True"
| "truthy (PEvent e) = True"
| "truthy (PDatetime t) = True"
| "truthy (PObject c fs) = True"

definition py_or :: "pyval \<Rightarrow> pyval \<Rightarrow> pyval" where
  \<comment> \<open>\<open>x or y\<close>\<close>
  "py_or x y = (if truthy x then x else y)"

definition arg :: "pyval option \<Rightarrow> pyval \<Rightarrow> pyval" where
  \<comment> \<open>a parameter with a default: \<open>None\<close> when the caller leaves the argument out\<close>
  "arg given dflt = (case given of None \<Rightarrow> dflt | Some v \<Rightarrow> v)"

definition dict_get :: "pydict \<Rightarrow> string \<Rightarrow> pyval option" where
  "dict_get d k = map_of d k"

definition dict_set :: "pydict \<Rightarrow> string \<Rightarrow> pyval \<Rightarrow> pydict" where
  \<comment> \<open>\<open>d[k] = v\<close>: an existing key keeps its place, a new one goes last\<close>
  "dict_set d k v = AList.update k v d"

definition dict_keys :: "pydict \<Rightarrow> string list" where
  "dict_keys d = map fst d"

definition bind :: "error + 'a \<Rightarrow> ('a \<Rightarrow> error + 'b) \<Rightarrow> error + 'b" where
  \<comment> \<open>sequencing: the first exception ends the evaluation\<close>
  "bind x f = (case x of Inl e \<Rightarrow> Inl e | Inr v \<Rightarrow> f v)"

text \<open>\<open>e.value\<close> exists on the members of the two enumerations only, and \<open>isoformat()\<close> on
  a datetime only.\<close>

fun attr_value :: "pyval \<Rightarrow> error + pyval" where
  "attr_value (PStatus m) = Inr (PStr (OrderStatus_value m))"
| "attr_value (PEvent e) = Inr (PStr (WebhookEvent_value e))"
| "attr_value v = Inl AttributeError"

fun isoformat :: "pyval \<Rightarrow> error + pyval" where
  "isoformat (PDatetime t) = Inr (PStr t)"
| "isoformat v = Inl AttributeError"

fun values_of :: "pyval list \<Rightarrow> error + pyval list" where
  \<comment> \<open>\<open>[e.value for e in events]\<close>, stopping at the first element that raises\<close>
  "values_of [] = Inr []"
| "values_of (e # es) =
     bind (attr_value e) (\<lambda>v. bind (values_of es) (\<lambda>vs. Inr (v # vs)))"

fun iterate :: "pyval \<Rightarrow> error + pyval list" where
  \<comment> \<open>\<open>for item in v\<close>: the elements of a list, the keys of a dict, the characters of a
     string (an enumeration member is its string); iterating anything else raises\<close>
  "iterate (PList xs) = Inr xs"
| "iterate (PDict d) = Inr (map PStr (dict_keys d))"
| "iterate (PStr s) = Inr (map (\<lambda>c. PStr [c]) s)"
| "iterate (PStatus m) = Inr (map (\<lambda>c. PStr [c]) (OrderStatus_value m))"
| "iterate (PEvent e) = Inr (map (\<lambda>c. PStr [c]) (WebhookEvent_value e))"
| "iterate v = Inl TypeError"

section \<open>The calls the resource routers make\<close>

text \<open>Every router method builds the arguments of one call of \<open>ShopClient._request\<close>:
  the HTTP method, the path, the query parameters and the JSON body, the last two \<open>None\<close>
  when the method does not pass them.\<close>

record request_args =
  http_method :: string
  path :: string
  params :: pyval
  json :: pyval

definition ProductsAPI_create ::
  "pyval \<Rightarrow> pyval \<Rightarrow> pyval \<Rightarrow> pyval \<Rightarrow> pyval \<Rightarrow> pyval option \<Rightarrow> pyval option \<Rightarrow> pyval option
     \<Rightarrow> pyval option \<Rightarrow> request_args" where
  \<comment> \<open>client.py 265-292\<close>
  "ProductsAPI_create sku name description price category_id images' inventory'
       compare_at_price' attributes' =
     (let images = arg images' PNone;
          inventory = arg inventory' (PInt 0);
          compare_at_price = arg compare_at_price' PNone;
          attributes = arg attributes' PNone;
          data = [(''sku'', sku), (''name'', name), (''description'', description),
                  (''price'', price), (''category_id'', category_id),
                  (''images'', py_or images (PList [])), (''inventory'', inventory)];
          data = (if truthy compare_at_price
                  then dict_set data ''compare_at_price'' compare_at_price else data);
          data = (if truthy attributes then dict_set data ''attributes'' attributes else data)
      in \<lparr>http_method = ''POST'', path = ''/products'', params = PNone, json = PDict data\<rparr>)"

definition ProductsAPI_delete :: "string \<Rightarrow> request_args" where
  \<comment> \<open>client.py 305-307\<close>
  "ProductsAPI_delete product_id =
     \<lparr>http_method = ''DELETE'', path = ''/products/'' @ product_id, params = PNone,
      json = PNone\<rparr>"

definition ProductsAPI_list ::
  "pyval option \<Rightarrow> pyval option \<Rightarrow> pyval option \<Rightarrow> pyval option \<Rightarrow> pyval option
     \<Rightarrow> request_args" where
  \<comment> \<open>client.py 309-326\<close>
  "ProductsAPI_list page' limit' category_id' status' search' =
     (let page = arg page' (PInt 1);
          limit = arg limit' (PInt 20);
          category_id = arg category_id' PNone;
          status = arg status' PNone;
          search = arg search' PNone;
          ps = [(''page'', page), (''limit'', limit)];
          ps = (if truthy category_id then dict_set ps ''category_id'' category_id else ps);
          ps = (if truthy status then dict_set ps ''status'' status else ps);
          ps = (if truthy search then dict_set ps ''search'' search else ps)
      in \<lparr>http_method = ''GET'', path = ''/products'', params = PDict ps, json = PNone\<rparr>)"

definition OrdersAPI_list ::
  "pyval option \<Rightarrow> pyval option \<Rightarrow> pyval option \<Rightarrow> pyval option \<Rightarrow> error + request_args" where
  \<comment> \<open>client.py 377-391\<close>
  "OrdersAPI_list page' limit' status' since' =
     (let page = arg page' (PInt 1);
          limit = arg limit' (PInt 20);
          status = arg status' PNone;
          since = arg since' PNone;
          ps = [(''page'', page), (''limit'', limit)]
      in
      bind (if truthy status
            then bind (attr_value status) (\<lambda>v. Inr (dict_set ps ''status'' v))
            else Inr ps) (\<lambda>ps.
      bind (if truthy since
            then bind (isoformat since) (\<lambda>v. Inr (dict_set ps ''since'' v))
            else Inr ps) (\<lambda>ps.
      Inr \<lparr>http_method = ''GET'', path = ''/orders'', params = PDict ps, json = PNone\<rparr>)))"

definition OrdersAPI_cancel :: "string \<Rightarrow> pyval option \<Rightarrow> request_args" where
  \<comment> \<open>client.py 431-435\<close>
  "OrdersAPI_cancel order_id reason' =
     (let reason = arg reason' PNone
      in \<lparr>http_method = ''POST'', path = ''/orders/'' @ order_id @ ''/cancel'', params = PNone,
          json = PDict [(''reason'', reason)]\<rparr>)"

definition OrdersAPI_refund :: "string \<Rightarrow> pyval option \<Rightarrow> pyval option \<Rightarrow> request_args" where
  \<comment> \<open>client.py 438-449\<close>
  "OrdersAPI_refund order_id amount' reason' =
     (let amount = arg amount' PNone;
          reason = arg reason' PNone
      in \<lparr>http_method = ''POST'', path = ''/orders/'' @ order_id @ ''/refund'', params = PNone,
          json = PDict [(''amount'', amount), (''reason'', reason)]\<rparr>)"

definition WebhooksAPI_update ::
  "string \<Rightarrow> pyval option \<Rightarrow> pyval option \<Rightarrow> pyval option \<Rightarrow> error + request_args" where
  \<comment> \<open>client.py 481-499\<close>
  "WebhooksAPI_update webhook_id url' events' active' =
     (let url = arg url' PNone;
          events = arg events' PNone;
          active = arg active' PNone;
          data = [];
          data = (if truthy url then dict_set data ''url'' url else data)
      in
      bind (if truthy events
            then bind (iterate events) (\<lambda>es.
                 bind (values_of es) (\<lambda>vs. Inr (dict_set data ''events'' (PList vs))))
            else Inr data) (\<lambda>data.
      (let data = (if active \<noteq> PNone then dict_set data ''active'' active else data)
       in Inr \<lparr>http_method = ''PATCH'', path = ''/webhooks/'' @ webhook_id,
               params = PNone, json = PDict data\<rparr>)))"

definition sent_fields :: "pyval \<Rightarrow> pydict" where
  \<comment> \<open>the key/value pairs of a body or of query parameters; none when nothing is passed\<close>
  "sent_fields v = (case v of PDict d \<Rightarrow> d | _ \<Rightarrow> [])"

section \<open>The HTTP session and its retry policy\<close>

text \<open>
  \<open>ShopClient.__init__\<close> (client.py 194-202) mounts on its session an adapter with
  \<open>Retry(total=max_retries, backoff_factor=0.5, status_forcelist=[429, 500, 502, 503, 504])\<close>.
  The retry loop itself is the HTTP library's (urllib3's \<open>Retry\<close> and
  \<open>HTTPConnectionPool.urlopen\<close>, driven by \<open>requests\<close>); the SDK sets these three arguments
  and leaves every other one at the library's default. The definitions below follow the
  library's methods of the same names, with the defaults the SDK leaves in place:
  \<open>allowed_methods\<close> (the idempotent methods), \<open>respect_retry_after_header = True\<close>,
  \<open>raise_on_status = True\<close>, a backoff ceiling of 120, and no separate connect, read,
  status or other counters.

  A response is given by its status code, its text, the value \<open>response.json()\<close> returns
  (\<open>None\<close> when it raises \<open>ValueError\<close>) and the seconds of its \<open>Retry-After\<close> header when
  it has one (the header in its form of a number of seconds; the date form, which needs a
  clock, is not modelled). The server and the network are a script: the outcome of the
  first attempt, of the second, and so on; an attempt ends in a response or in a transport
  failure, before the request was sent (connection refused, connect timeout) or after
  (read timeout, broken connection).

  Of a \<open>Retry\<close> object the model keeps what changes from attempt to attempt: the retries
  left (\<open>total\<close>) and the length of its history. The trace of a call counts the attempts
  made and lists the delay before each retry.
\<close>

record response =
  status_code :: int
  body_text :: string
  json_result :: "pyval option"
  retry_after :: "nat option"

datatype attempt = Got response | Failed failure

record retry =
  total :: int
  history :: nat

record trace =
  attempts :: nat
  sleeps :: "real list"

definition backoff_factor :: real where
  "backoff_factor = 1 / 2"

definition status_forcelist :: "int list" where
  "status_forcelist = [429, 500, 502, 503, 504]"

definition DEFAULT_ALLOWED_METHODS :: "string list" where
  "DEFAULT_ALLOWED_METHODS = [''HEAD'', ''GET'', ''PUT'', ''DELETE'', ''OPTIONS'', ''TRACE'']"

definition RETRY_AFTER_STATUS_CODES :: "int list" where
  "RETRY_AFTER_STATUS_CODES = [413, 429, 503]"

definition DEFAULT_BACKOFF_MAX :: real where
  "DEFAULT_BACKOFF_MAX = 120"

definition Retry_init :: "int \<Rightarrow> retry" where
  "Retry_init max_retries = \<lparr>total = max_retries, history = 0\<rparr>"

definition upper_char :: "char \<Rightarrow> char" where
  "upper_char c =
     (case map_of (zip ''abcdefghijklmnopqrstuvwxyz'' ''ABCDEFGHIJKLMNOPQRSTUVWXYZ'') c of
        None \<Rightarrow> c
      | Some u \<Rightarrow> u)"

definition upper :: "string \<Rightarrow> string" where
  \<comment> \<open>\<open>str.upper()\<close> on a method name (ASCII letters)\<close>
  "upper s = map upper_char s"

definition is_method_retryable :: "string \<Rightarrow> bool" where
  \<comment> \<open>the library compares the method in upper case\<close>
  "is_method_retryable m = (upper m \<in> set DEFAULT_ALLOWED_METHODS)"

definition is_retry :: "retry \<Rightarrow> string \<Rightarrow> int \<Rightarrow> bool \<Rightarrow> bool" where
  "is_retry rt m status has_retry_after =
     (if \<not> is_method_retryable m then False
      else if status \<in> set status_forcelist then True
      else (total rt \<noteq> 0 \<and> has_retry_after \<and> status \<in> set RETRY_AFTER_STATUS_CODES))"

definition increment :: "retry \<Rightarrow> retry" where
  \<comment> \<open>one more entry in the history, one less retry left\<close>
  "increment rt = \<lparr>total = total rt - 1, history = history rt + 1\<rparr>"

definition is_exhausted :: "retry \<Rightarrow> bool" where
  \<comment> \<open>the library drops the counters that are unset or 0 and asks whether the least of the
     rest is negative; \<open>total\<close> is the only counter set\<close>
  "is_exhausted rt = (total rt \<noteq> 0 \<and> total rt < 0)"

definition get_backoff_time :: "retry \<Rightarrow> real" where
  "get_backoff_time rt =
     (if history rt \<le> 1 then 0
      else min DEFAULT_BACKOFF_MAX (backoff_factor * 2 ^ (history rt - 1)))"

definition sleep :: "retry \<Rightarrow> response option \<Rightarrow> trace \<Rightarrow> trace" where
  \<comment> \<open>the delay before the next attempt, appended to the trace (0 when the library does not
     sleep): the header's seconds when the response has a non-zero \<open>Retry-After\<close>, the
     backoff time otherwise\<close>
  "sleep rt resp tr =
     (let d = (case resp of
                 None \<Rightarrow> get_backoff_time rt
               | Some r \<Rightarrow>
                   (case retry_after r of
                      None \<Rightarrow> get_backoff_time rt
                    | Some n \<Rightarrow> if n \<noteq> 0 then real n else get_backoff_time rt))
      in tr\<lparr>sleeps := sleeps tr @ [d]\<rparr>)"

text \<open>One call of \<open>session.request\<close>: it returns a response, or raises, after some attempts.
  A read failure (read timeout, broken connection) of a method outside \<open>allowed_methods\<close>
  is raised at once; exhausted retries raise the library's retry error for a response and
  the transport error for a failure. The result is \<open>None\<close> only when the script has no
  outcome left for an attempt the library makes.\<close>

fun urlopen :: "string \<Rightarrow> retry \<Rightarrow> attempt list \<Rightarrow> trace \<Rightarrow> ((error + response) \<times> trace) option"
  where
  "urlopen m rt [] tr = None"
| "urlopen m rt (Failed f # script) tr =
     (let tr = tr\<lparr>attempts := attempts tr + 1\<rparr> in
      if f = ReadFailure \<and> \<not> is_method_retryable m then Some (Inl (TransportError f), tr)
      else let rt' = increment rt in
        if is_exhausted rt' then Some (Inl (TransportError f), tr)
        else urlopen m rt' script (sleep rt' None tr))"
| "urlopen m rt (Got r # script) tr =
     (let tr = tr\<lparr>attempts := attempts tr + 1\<rparr> in
      if is_retry rt m (status_code r) (retry_after r \<noteq> None) then
        let rt' = increment rt in
        if is_exhausted rt' then Some (Inl (RetryError (status_code r)), tr)
        else urlopen m rt' script (sleep rt' (Some r) tr)
      else Some (Inr r, tr))"

section \<open>The client\<close>

record ShopClient =
  api_key :: string
  base_url :: string
  timeout :: int
  session_retries :: retry

definition DEFAULT_BASE_URL :: string where
  "DEFAULT_BASE_URL = ''https://api.shop.com/v1''"

definition DEFAULT_TIMEOUT :: int where
  "DEFAULT_TIMEOUT = 30"

definition ShopClient_init :: "string \<Rightarrow> string option \<Rightarrow> int option \<Rightarrow> int option \<Rightarrow> ShopClient"
  where
  \<comment> \<open>client.py 173-202; an argument is \<open>None\<close> when the caller leaves it out\<close>
  "ShopClient_init api_key' base_url' timeout' max_retries' =
     (let max_retries = (case max_retries' of None \<Rightarrow> 3 | Some n \<Rightarrow> n) in
      \<lparr>api_key = api_key',
       base_url = (case base_url' of
                     None \<Rightarrow> DEFAULT_BASE_URL
                   | Some u \<Rightarrow> if u \<noteq> [] then u else DEFAULT_BASE_URL),
       timeout = (case timeout' of None \<Rightarrow> DEFAULT_TIMEOUT | Some t \<Rightarrow> t),
       session_retries = Retry_init max_retries\<rparr>)"

fun digits :: "nat \<Rightarrow> string" where
  "digits n = (if n < 10 then [''0123456789'' ! n] else digits (n div 10) @ [''0123456789'' ! (n mod 10)])"

definition str_int :: "int \<Rightarrow> string" where
  \<comment> \<open>\<open>str(i)\<close>, as an f-string formats an integer\<close>
  "str_int i = (if i < 0 then CHR ''-'' # digits (nat (- i)) else digits (nat i))"

definition handle_response :: "response \<Rightarrow> error + pyval" where
  \<comment> \<open>client.py 235-252, the part of \<open>_request\<close> after \<open>session.request\<close> has returned;
     \<open>.get\<close> exists on a dict only\<close>
  "handle_response r =
     (if status_code r \<ge> 400 then
        (case json_result r of
           Some error_data \<Rightarrow>
             (case error_data of
                PDict d \<Rightarrow>
                  Inl (ShopAPIError
                        (case dict_get d ''code'' of None \<Rightarrow> PStr ''unknown'' | Some v \<Rightarrow> v)
                        (case dict_get d ''message'' of None \<Rightarrow> PStr (body_text r) | Some v \<Rightarrow> v)
                        (case dict_get d ''details'' of None \<Rightarrow> PNone | Some v \<Rightarrow> v))
              | _ \<Rightarrow> Inl AttributeError)
         | None \<Rightarrow>
             Inl (ShopAPIError (PStr ''http_error'')
                   (PStr (''HTTP '' @ str_int (status_code r) @ '': '' @ body_text r)) PNone))
      else if status_code r = 204 then Inr (PDict [])
      else (case json_result r of None \<Rightarrow> Inl JSONDecodeError | Some v \<Rightarrow> Inr v))"

definition request :: "ShopClient \<Rightarrow> request_args \<Rightarrow> attempt list \<Rightarrow> ((error + pyval) \<times> trace) option"
  where
  \<comment> \<open>client.py 217-252, \<open>ShopClient._request\<close>\<close>
  "request self a script =
     (case urlopen (http_method a) (session_retries self) script \<lparr>attempts = 0, sleeps = []\<rparr> of
        None \<Rightarrow> None
      | Some (Inl e, tr) \<Rightarrow> Some (Inl e, tr)
      | Some (Inr r, tr) \<Rightarrow> Some (handle_response r, tr))"








section \<open>Decoding an order\<close>

text \<open>
  \<open>Order.from_dict\<close> (client.py 125-131) rewrites four entries of the decoded JSON object
  and hands the dict to the dataclass constructor. A dataclass constructor called as
  \<open>cls(**kwargs)\<close> raises \<open>TypeError\<close> when \<open>kwargs\<close> is not a mapping, when a key is not a
  field and when a field without a default is missing; it does not look at the values.
  Calling an enumeration with a value looks the member up by value and raises \<open>ValueError\<close>
  when there is none.
\<close>

definition get_item :: "pyval \<Rightarrow> string \<Rightarrow> error + pyval" where
  \<comment> \<open>\<open>data[k]\<close> with a string \<open>k\<close>: only a dict can be indexed so\<close>
  "get_item data k =
     (case data of
        PDict d \<Rightarrow> (case dict_get d k of None \<Rightarrow> Inl (KeyError k) | Some v \<Rightarrow> Inr v)
      | _ \<Rightarrow> Inl TypeError)"

definition set_item :: "pyval \<Rightarrow> string \<Rightarrow> pyval \<Rightarrow> error + pyval" where
  \<comment> \<open>\<open>data[k] = v\<close>\<close>
  "set_item data k v =
     (case data of PDict d \<Rightarrow> Inr (PDict (dict_set d k v)) | _ \<Rightarrow> Inl TypeError)"

definition OrderStatus_members :: "OrderStatus list" where
  "OrderStatus_members = [PENDING, PAID, PROCESSING, SHIPPED, DELIVERED, CANCELLED, REFUNDED]"

definition OrderStatus_of :: "pyval \<Rightarrow> error + pyval" where
  \<comment> \<open>\<open>OrderStatus(value)\<close>\<close>
  "OrderStatus_of v =
     (case v of
        PStatus m \<Rightarrow> Inr (PStatus m)
      | PStr s \<Rightarrow>
          (case find (\<lambda>m. OrderStatus_value m = s) OrderStatus_members of
             None \<Rightarrow> Inl ValueError
           | Some m \<Rightarrow> Inr (PStatus m))
      | _ \<Rightarrow> Inl ValueError)"

definition dataclass_init :: "string \<Rightarrow> string list \<Rightarrow> pydict \<Rightarrow> pyval \<Rightarrow> error + pyval" where
  \<comment> \<open>\<open>cls(**kwargs)\<close> for a dataclass with the fields \<open>required\<close> and then the fields of
     \<open>defaults\<close>, each with its default\<close>
  "dataclass_init cls required defaults kwargs =
     (case kwargs of
        PDict kw \<Rightarrow>
          if \<not> list_all (\<lambda>k. k \<in> set required \<union> set (dict_keys defaults)) (dict_keys kw)
          then Inl TypeError
          else if \<not> list_all (\<lambda>f. f \<in> set (dict_keys kw)) required then Inl TypeError
          else Inr (PObject cls
                 (map (\<lambda>f. (f, case dict_get kw f of None \<Rightarrow> PNone | Some v \<Rightarrow> v)) required @
                  map (\<lambda>(f, d). (f, case dict_get kw f of None \<Rightarrow> d | Some v \<Rightarrow> v)) defaults))
      | _ \<Rightarrow> Inl TypeError)"

definition Address_init :: "pyval \<Rightarrow> error + pyval" where
  \<comment> \<open>client.py 44-55\<close>
  "Address_init = dataclass_init ''Address''
     [''first_name'', ''last_name'', ''address1'', ''city'', ''region'', ''postal_code'',
      ''country'']
     [(''company'', PNone), (''address2'', PNone), (''phone'', PNone)]"

definition OrderItem_init :: "pyval \<Rightarrow> error + pyval" where
  \<comment> \<open>client.py 94-102\<close>
  "OrderItem_init = dataclass_init ''OrderItem''
     [''product_id'', ''sku'', ''name'', ''quantity'', ''price'', ''total_price'']
     [(''variant_id'', PNone)]"

definition Order_init :: "pyval \<Rightarrow> error + pyval" where
  \<comment> \<open>client.py 105-123\<close>
  "Order_init = dataclass_init ''Order''
     [''id'', ''order_number'', ''status'', ''customer_email'', ''customer_name'',
      ''shipping_address'', ''billing_address'', ''items'', ''subtotal'', ''shipping_cost'',
      ''tax'', ''discount'', ''total'', ''currency'', ''created_at'', ''updated_at'']
     [(''notes'', PNone)]"

fun order_items :: "pyval list \<Rightarrow> error + pyval list" where
  \<comment> \<open>\<open>[OrderItem(**item) for item in ...]\<close>\<close>
  "order_items [] = Inr []"
| "order_items (item # rest) =
     bind (OrderItem_init item) (\<lambda>x. bind (order_items rest) (\<lambda>xs. Inr (x # xs)))"

definition Order_from_dict :: "pyval \<Rightarrow> error + pyval" where
  \<comment> \<open>client.py 125-131\<close>
  "Order_from_dict data =
     bind (get_item data ''status'') (\<lambda>s.
     bind (OrderStatus_of s) (\<lambda>status.
     bind (set_item data ''status'' status) (\<lambda>data.
     bind (get_item data ''shipping_address'') (\<lambda>sa.
     bind (Address_init sa) (\<lambda>shipping_address.
     bind (set_item data ''shipping_address'' shipping_address) (\<lambda>data.
     bind (get_item data ''billing_address'') (\<lambda>ba.
     bind (Address_init ba) (\<lambda>billing_address.
     bind (set_item data ''billing_address'' billing_address) (\<lambda>data.
     bind (get_item data ''items'') (\<lambda>its.
     bind (iterate its) (\<lambda>its.
     bind (order_items its) (\<lambda>items.
     bind (set_item data ''items'' (PList items)) (\<lambda>data.
     Order_init data)))))))))))))"

definition field :: "pyval \<Rightarrow> string \<Rightarrow> pyval option" where
  \<comment> \<open>the attribute \<open>k\<close> of a dataclass instance\<close>
  "field ob k = (case ob of PObject c fs \<Rightarrow> dict_get fs k | _ \<Rightarrow> None)"

definition sample_address :: pyval where
  "sample_address = PDict
     [(''first_name'', PStr ''Ada''), (''last_name'', PStr ''Byron''),
      (''address1'', PStr ''1 Main St''), (''city'', PStr ''Kyiv''), (''region'', PStr ''KV''),
      (''postal_code'', PStr ''01001''), (''country'', PStr ''UA'')]"

definition sample_order :: "string \<Rightarrow> pyval" where
  \<comment> \<open>a raw order as \<open>GET /orders/{id}\<close> answers it, with the given status string\<close>
  "sample_order status = PDict
     [(''id'', PStr ''o1''), (''order_number'', PStr ''1001''), (''status'', PStr status),
      (''customer_email'', PStr ''ada@example.com''), (''customer_name'', PStr ''Ada Byron''),
      (''shipping_address'', sample_address), (''billing_address'', sample_address),
      (''items'', PList [PDict [(''product_id'', PStr ''p1''), (''sku'', PStr ''SKU-1''),
                               (''name'', PStr ''Shoe''), (''quantity'', PInt 2),
                               (''price'', PFloat 10), (''total_price'', PFloat 20)]]),
      (''subtotal'', PFloat 20), (''shipping_cost'', PFloat 5), (''tax'', PFloat 0),
      (''discount'', PFloat 0), (''total'', PFloat 25), (''currency'', PStr ''UAH''),
      (''created_at'', PStr ''2024-01-01T00:00:00''),
      (''updated_at'', PStr ''2024-01-02T00:00:00'')]"

section \<open>Verifying a webhook signature\<close>

text \<open>
  In \<open>verify_signature\<close> (client.py 502-508) the standard library looks inside the strings,
  so there a \<open>str\<close> is the list of its code points and \<open>bytes\<close> a list of 8-bit words.
  \<open>str.encode()\<close> is UTF-8 and refuses a lone surrogate; \<open>hexdigest()\<close> writes each byte as
  two lower-case hexadecimal digits; \<open>hmac.compare_digest\<close> on two \<open>str\<close> raises \<open>TypeError\<close>
  unless both are ASCII. HMAC-SHA256 itself (\<open>hmac.new(key, msg, hashlib.sha256).digest()\<close>)
  is a parameter of the model: a function from the key bytes and the message bytes to the
  digest bytes.
\<close>

type_synonym pystr = "nat list"

type_synonym bytes = "8 word list"

definition is_surrogate :: "nat \<Rightarrow> bool" where
  "is_surrogate c = (0xD800 \<le> c \<and> c \<le> 0xDFFF)"

definition encode_char :: "nat \<Rightarrow> error + bytes" where
  "encode_char c =
     (if c < 0x80 then Inr [of_nat c]
      else if c < 0x800 then Inr [of_nat (0xC0 + c div 64), of_nat (0x80 + c mod 64)]
      else if is_surrogate c then Inl UnicodeEncodeError
      else if c < 0x10000 then
        Inr [of_nat (0xE0 + c div 4096), of_nat (0x80 + c div 64 mod 64),
             of_nat (0x80 + c mod 64)]
      else
        Inr [of_nat (0xF0 + c div 262144), of_nat (0x80 + c div 4096 mod 64),
             of_nat (0x80 + c div 64 mod 64), of_nat (0x80 + c mod 64)])"

fun encode :: "pystr \<Rightarrow> error + bytes" where
  "encode [] = Inr []"
| "encode (c # cs) = bind (encode_char c) (\<lambda>b. bind (encode cs) (\<lambda>bs. Inr (b @ bs)))"

definition hexdigit :: "nat \<Rightarrow> nat" where
  \<comment> \<open>the code point of a hexadecimal digit: \<open>0\<close>..\<open>9\<close>, \<open>a\<close>..\<open>f\<close>\<close>
  "hexdigit n = (if n < 10 then 48 + n else 87 + n)"

definition hexdigest :: "bytes \<Rightarrow> pystr" where
  "hexdigest bs = concat (map (\<lambda>b. [hexdigit (unat b div 16), hexdigit (unat b mod 16)]) bs)"

definition is_ascii :: "pystr \<Rightarrow> bool" where
  "is_ascii s = list_all (\<lambda>c. c < 128) s"

definition compare_digest :: "pystr \<Rightarrow> pystr \<Rightarrow> error + bool" where
  "compare_digest a b = (if is_ascii a \<and> is_ascii b then Inr (a = b) else Inl TypeError)"

definition verify_signature :: "(bytes \<Rightarrow> bytes \<Rightarrow> bytes) \<Rightarrow> pystr \<Rightarrow> pystr \<Rightarrow> pystr \<Rightarrow> error + bool"
  where
  \<comment> \<open>client.py 502-508; the arguments of \<open>hmac.new\<close> are evaluated from left to right\<close>
  "verify_signature hmac_sha256 payload signature secret =
     bind (encode secret) (\<lambda>key.
     bind (encode payload) (\<lambda>msg.
     compare_digest signature (hexdigest (hmac_sha256 key msg))))"

text \<open>A single-bit mutation of a string: bit \<open>i\<close> of the code point at position \<open>j\<close> is
  flipped.\<close>

definition flip_at :: "nat \<Rightarrow> nat \<Rightarrow> pystr \<Rightarrow> pystr" where
  "flip_at j i s = s[j := flip_bit i (s ! j)]"

declare digits.simps [simp del]

section \<open>Request assembly: what is sent and what is left out\<close>

subsection \<open>Sequencing and dicts\<close>

lemma bind_Inr_iff: "bind x f = Inr y \<longleftrightarrow> (\<exists>v. x = Inr v \<and> f v = Inr y)"
  by (cases x) (simp_all add: bind_def)

lemma bind_Inl [simp]: "bind (Inl e) f = Inl e"
  by (simp add: bind_def)

lemma bind_Inr [simp]: "bind (Inr v) f = f v"
  by (simp add: bind_def)

lemma truthy_arg_None [simp]: "\<not> truthy (arg None PNone)"
  by (simp add: arg_def)

lemma sent_fields_PDict [simp]: "sent_fields (PDict d) = d"
  by (simp add: sent_fields_def)

lemma dict_keys_dict_set:
  "set (dict_keys (dict_set d k v)) = insert k (set (dict_keys d))"
  by (simp add: dict_keys_def dict_set_def dom_update)

lemma dict_get_dict_set:
  "dict_get (dict_set d k v) k' = (if k' = k then Some v else dict_get d k')"
  by (simp add: dict_get_def dict_set_def update_conv')

subsection \<open>The router methods\<close>

lemma create_omits_compare_at_price:
  "''compare_at_price'' \<notin>
     set (dict_keys (sent_fields (json (ProductsAPI_create sku name description price category_id
       images inventory None attributes))))"
  by (simp add: ProductsAPI_create_def Let_def dict_keys_dict_set) (simp add: dict_keys_def)

lemma create_omits_attributes:
  "''attributes'' \<notin>
     set (dict_keys (sent_fields (json (ProductsAPI_create sku name description price category_id
       images inventory compare_at_price None))))"
  by (simp add: ProductsAPI_create_def Let_def dict_keys_dict_set) (simp add: dict_keys_def)

lemma create_images_default:
  "dict_get (sent_fields (json (ProductsAPI_create sku name description price category_id
       None inventory compare_at_price attributes))) ''images'' = Some (PList [])"
  by (simp add: ProductsAPI_create_def Let_def dict_get_dict_set py_or_def)
     (simp add: dict_get_def)

lemma list_omits_absent:
  "''category_id'' \<notin> set (dict_keys (sent_fields (params
      (ProductsAPI_list page limit None status search))))"
  "''status'' \<notin> set (dict_keys (sent_fields (params
      (ProductsAPI_list page limit category_id None search))))"
  "''search'' \<notin> set (dict_keys (sent_fields (params
      (ProductsAPI_list page limit category_id status None))))"
  by (simp_all add: ProductsAPI_list_def Let_def dict_keys_dict_set) (simp_all add: dict_keys_def)

lemma orders_list_omits_status:
  "OrdersAPI_list page limit None since = Inr rq \<Longrightarrow>
     ''status'' \<notin> set (dict_keys (sent_fields (params rq)))"
  by (auto simp: OrdersAPI_list_def Let_def dict_keys_dict_set bind_Inr_iff split: if_splits)
     (simp_all add: dict_keys_def)

lemma orders_list_omits_since:
  "OrdersAPI_list page limit status None = Inr rq \<Longrightarrow>
     ''since'' \<notin> set (dict_keys (sent_fields (params rq)))"
  by (auto simp: OrdersAPI_list_def Let_def dict_keys_dict_set bind_Inr_iff split: if_splits)
     (simp_all add: dict_keys_def)

lemma webhooks_update_omits_url:
  "WebhooksAPI_update webhook_id None events active = Inr rq \<Longrightarrow>
     ''url'' \<notin> set (dict_keys (sent_fields (json rq)))"
  by (auto simp: WebhooksAPI_update_def Let_def dict_keys_dict_set bind_Inr_iff
      split: if_splits)
     (simp_all add: dict_keys_def)

lemma webhooks_update_omits_events:
  "WebhooksAPI_update webhook_id url None active = Inr rq \<Longrightarrow>
     ''events'' \<notin> set (dict_keys (sent_fields (json rq)))"
  by (auto simp: WebhooksAPI_update_def Let_def dict_keys_dict_set bind_Inr_iff
      split: if_splits)
     (simp_all add: dict_keys_def)

lemma webhooks_update_omits_active:
  "WebhooksAPI_update webhook_id url events None = Inr rq \<Longrightarrow>
     ''active'' \<notin> set (dict_keys (sent_fields (json rq)))"
  by (auto simp: WebhooksAPI_update_def Let_def dict_keys_dict_set arg_def bind_Inr_iff
      split: if_splits)
     (simp_all add: dict_keys_def)

text \<open>C8: \<open>products.list\<close> with \<open>category_id="shoes"\<close>, \<open>status="active"\<close> and everything
  else left at its default calls GET \<open>/products\<close> with exactly the four query parameters
  page=1, limit=20, category_id=shoes, status=active, in this order; there is no \<open>search\<close>
  key, and no request body.\<close>

theorem products_list_shoes_active:
  "ProductsAPI_list None None (Some (PStr ''shoes'')) (Some (PStr ''active'')) None =
     \<lparr>http_method = ''GET'', path = ''/products'',
      params = PDict [(''page'', PInt 1), (''limit'', PInt 20),
                      (''category_id'', PStr ''shoes''), (''status'', PStr ''active'')],
      json = PNone\<rparr>"
  by (simp add: ProductsAPI_list_def arg_def dict_set_def)

text \<open>C6, the claim as stated: every optional argument left absent is omitted. It fails at
  \<open>orders.cancel("o1")\<close>: the body carries the key \<open>reason\<close> with the value \<open>None\<close>,
  which is sent as an explicit JSON null. It also fails at \<open>products.create\<close> called
  without \<open>images\<close>: the key \<open>images\<close> is sent, with an empty list.\<close>

theorem cancel_sends_null_reason:
  "''reason'' \<in> set (dict_keys (sent_fields (json (OrdersAPI_cancel ''o1'' None)))) \<and>
   dict_get (sent_fields (json (OrdersAPI_cancel ''o1'' None))) ''reason'' = Some PNone \<and>
   dict_get (sent_fields (json (ProductsAPI_create (PStr ''SKU-1'') (PStr ''Shoe'')
       (PStr ''A shoe'') (PFloat 10) (PStr ''shoes'') None None None None))) ''images''
     = Some (PList [])"
  by (simp add: OrdersAPI_cancel_def ProductsAPI_create_def arg_def dict_keys_def dict_get_def
      py_or_def)

text \<open>C6 as amended: \<open>products.create\<close> (compare_at_price, attributes), \<open>products.list\<close>
  (category_id, status, search), \<open>orders.list\<close> (status, since) and \<open>webhooks.update\<close>
  (url, events, active) leave the key of an absent optional argument out of the body or
  query; \<open>products.create\<close> sends \<open>images\<close> as an empty list when it is absent;
  \<open>orders.cancel\<close> always sends the key \<open>reason\<close> and \<open>orders.refund\<close> always sends the
  keys \<open>amount\<close> and \<open>reason\<close>, each with the argument given, or null when it is absent.\<close>

theorem absent_optionals:
  "''compare_at_price'' \<notin>
     set (dict_keys (sent_fields (json (ProductsAPI_create sku name description price category_id
       images inventory None attributes)))) \<and>
   ''attributes'' \<notin>
     set (dict_keys (sent_fields (json (ProductsAPI_create sku name description price category_id
       images inventory compare_at_price None)))) \<and>
   dict_get (sent_fields (json (ProductsAPI_create sku name description price category_id
       None inventory compare_at_price attributes))) ''images'' = Some (PList []) \<and>
   ''category_id'' \<notin> set (dict_keys (sent_fields (params
      (ProductsAPI_list page limit None status search)))) \<and>
   ''status'' \<notin> set (dict_keys (sent_fields (params
      (ProductsAPI_list page limit category None search)))) \<and>
   ''search'' \<notin> set (dict_keys (sent_fields (params
      (ProductsAPI_list page limit category status None)))) \<and>
   (\<forall>rq. OrdersAPI_list page limit None since = Inr rq \<longrightarrow>
      ''status'' \<notin> set (dict_keys (sent_fields (params rq)))) \<and>
   (\<forall>rq. OrdersAPI_list page limit status None = Inr rq \<longrightarrow>
      ''since'' \<notin> set (dict_keys (sent_fields (params rq)))) \<and>
   (\<forall>rq. WebhooksAPI_update webhook_id None events active = Inr rq \<longrightarrow>
      ''url'' \<notin> set (dict_keys (sent_fields (json rq)))) \<and>
   (\<forall>rq. WebhooksAPI_update webhook_id url None active = Inr rq \<longrightarrow>
      ''events'' \<notin> set (dict_keys (sent_fields (json rq)))) \<and>
   (\<forall>rq. WebhooksAPI_update webhook_id url events None = Inr rq \<longrightarrow>
      ''active'' \<notin> set (dict_keys (sent_fields (json rq)))) \<and>
   json (OrdersAPI_cancel order_id reason) =
     PDict [(''reason'', case reason of None \<Rightarrow> PNone | Some v \<Rightarrow> v)] \<and>
   json (OrdersAPI_refund order_id' amount reason') =
     PDict [(''amount'', case amount of None \<Rightarrow> PNone | Some v \<Rightarrow> v),
            (''reason'', case reason' of None \<Rightarrow> PNone | Some v \<Rightarrow> v)]"
proof -
  have cancel: "json (OrdersAPI_cancel order_id reason) =
      PDict [(''reason'', case reason of None \<Rightarrow> PNone | Some v \<Rightarrow> v)]"
    by (simp add: OrdersAPI_cancel_def arg_def)
  have refund: "json (OrdersAPI_refund order_id' amount reason') =
      PDict [(''amount'', case amount of None \<Rightarrow> PNone | Some v \<Rightarrow> v),
             (''reason'', case reason' of None \<Rightarrow> PNone | Some v \<Rightarrow> v)]"
    by (simp add: OrdersAPI_refund_def arg_def)
  show ?thesis
    by (intro conjI allI impI)
       (rule create_omits_compare_at_price create_omits_attributes create_images_default
          list_omits_absent cancel refund
        | erule orders_list_omits_status orders_list_omits_since webhooks_update_omits_url
          webhooks_update_omits_events webhooks_update_omits_active)+
qed

text \<open>The amended C6 at concrete calls: \<open>orders.list()\<close> and \<open>webhooks.update("w1")\<close> with
  every optional argument absent do return a request, with only page and limit as query
  parameters and an empty body respectively; \<open>orders.cancel("o1")\<close> sends a null reason and
  \<open>orders.refund("o1", amount=5.0)\<close> sends the amount and a null reason.\<close>

theorem absent_optionals_witness:
  "OrdersAPI_list None None None None =
     Inr \<lparr>http_method = ''GET'', path = ''/orders'',
          params = PDict [(''page'', PInt 1), (''limit'', PInt 20)], json = PNone\<rparr> \<and>
   WebhooksAPI_update ''w1'' None None None =
     Inr \<lparr>http_method = ''PATCH'', path = ''/webhooks/w1'', params = PNone, json = PDict []\<rparr> \<and>
   ''status'' \<notin> set (dict_keys [(''page'', PInt 1), (''limit'', PInt 20)]) \<and>
   ''since'' \<notin> set (dict_keys [(''page'', PInt 1), (''limit'', PInt 20)]) \<and>
   ''url'' \<notin> set (dict_keys []) \<and> ''events'' \<notin> set (dict_keys []) \<and>
   ''active'' \<notin> set (dict_keys []) \<and>
   json (OrdersAPI_cancel ''o1'' None) = PDict [(''reason'', PNone)] \<and>
   json (OrdersAPI_refund ''o1'' (Some (PFloat 5)) None) =
     PDict [(''amount'', PFloat 5), (''reason'', PNone)]"
proof -
  have ol: "OrdersAPI_list None None None None =
     Inr \<lparr>http_method = ''GET'', path = ''/orders'',
          params = PDict [(''page'', PInt 1), (''limit'', PInt 20)], json = PNone\<rparr>"
    by (simp add: OrdersAPI_list_def arg_def)
  have wu: "WebhooksAPI_update ''w1'' None None None =
     Inr \<lparr>http_method = ''PATCH'', path = ''/webhooks/w1'', params = PNone, json = PDict []\<rparr>"
    by (simp add: WebhooksAPI_update_def arg_def)
  show ?thesis
    using ol wu
      absent_optionals [where page = None and limit = None and since = None and status = None
        and webhook_id = "''w1''" and url = None and events = None and active = None
        and order_id = "''o1''" and reason = None and order_id' = "''o1''"
        and amount = "Some (PFloat 5)" and reason' = None]
    by (simp add: dict_keys_def)
qed

text \<open>C10: in \<open>products.create\<close> a \<open>compare_at_price\<close> of 0.0 and an \<open>attributes\<close> of \<open>{}\<close>
  build the same request as leaving the argument out, the key \<open>compare_at_price\<close> is then
  not in the body, and whatever the arguments are the body never carries
  \<open>compare_at_price\<close> with the value 0.0 (or the integer 0).\<close>

theorem create_zero_compare_at_price_omitted:
  "ProductsAPI_create sku name description price category_id images inventory
       (Some (PFloat 0)) attributes =
     ProductsAPI_create sku name description price category_id images inventory
       None attributes \<and>
   ProductsAPI_create sku name description price category_id images inventory
       compare_at_price (Some (PDict [])) =
     ProductsAPI_create sku name description price category_id images inventory
       compare_at_price None \<and>
   ''compare_at_price'' \<notin>
     set (dict_keys (sent_fields (json (ProductsAPI_create sku name description price category_id
       images inventory (Some (PFloat 0)) attributes)))) \<and>
   ''attributes'' \<notin>
     set (dict_keys (sent_fields (json (ProductsAPI_create sku name description price category_id
       images inventory compare_at_price (Some (PDict [])))))) \<and>
   dict_get (sent_fields (json (ProductsAPI_create sku name description price category_id
       images inventory compare_at_price attributes))) ''compare_at_price'' \<noteq> Some (PFloat 0) \<and>
   dict_get (sent_fields (json (ProductsAPI_create sku name description price category_id
       images inventory compare_at_price attributes))) ''compare_at_price'' \<noteq> Some (PInt 0)"
proof -
  have zero: "ProductsAPI_create sku name description price category_id images inventory
       (Some (PFloat 0)) attributes =
     ProductsAPI_create sku name description price category_id images inventory
       None attributes"
    by (simp add: ProductsAPI_create_def arg_def)
  have empty: "ProductsAPI_create sku name description price category_id images inventory
       compare_at_price (Some (PDict [])) =
     ProductsAPI_create sku name description price category_id images inventory
       compare_at_price None"
    by (simp add: ProductsAPI_create_def arg_def)
  have never: "dict_get (sent_fields (json (ProductsAPI_create sku name description price
       category_id images inventory compare_at_price attributes))) ''compare_at_price'' = Some v
     \<Longrightarrow> truthy v" for v
    by (auto simp: ProductsAPI_create_def Let_def dict_get_dict_set split: if_splits)
       (simp_all add: dict_get_def)
  have f: "dict_get (sent_fields (json (ProductsAPI_create sku name description price
       category_id images inventory compare_at_price attributes))) ''compare_at_price''
         \<noteq> Some (PFloat 0)"
    using never [of "PFloat 0"] by auto
  have i: "dict_get (sent_fields (json (ProductsAPI_create sku name description price
       category_id images inventory compare_at_price attributes))) ''compare_at_price''
         \<noteq> Some (PInt 0)"
    using never [of "PInt 0"] by auto
  show ?thesis
    using zero empty f i create_omits_compare_at_price [of sku name description price
        category_id images inventory attributes]
      create_omits_attributes [of sku name description price category_id images inventory
        compare_at_price]
    by simp
qed

section \<open>Responses, retries and errors\<close>

lemma is_method_retryable_simps [simp]:
  "is_method_retryable ''GET''" "is_method_retryable ''PUT''" "is_method_retryable ''DELETE''"
  "is_method_retryable ''get''"
  "\<not> is_method_retryable ''POST''" "\<not> is_method_retryable ''PATCH''"
  by (simp_all add: is_method_retryable_def DEFAULT_ALLOWED_METHODS_def upper_def
      upper_char_def)

lemma urlopen_returns_at_once:
  "\<not> is_retry rt m (status_code r) (retry_after r \<noteq> None) \<Longrightarrow>
   urlopen m rt (Got r # rest) tr = Some (Inr r, tr\<lparr>attempts := attempts tr + 1\<rparr>)"
  by (simp add: Let_def)

lemma handle_response_error_object:
  "400 \<le> status_code r \<Longrightarrow> json_result r = Some (PDict d) \<Longrightarrow>
   handle_response r =
     Inl (ShopAPIError
           (case dict_get d ''code'' of None \<Rightarrow> PStr ''unknown'' | Some v \<Rightarrow> v)
           (case dict_get d ''message'' of None \<Rightarrow> PStr (body_text r) | Some v \<Rightarrow> v)
           (case dict_get d ''details'' of None \<Rightarrow> PNone | Some v \<Rightarrow> v))"
  by (simp add: handle_response_def)

lemma handle_response_error_not_json:
  "400 \<le> status_code r \<Longrightarrow> json_result r = None \<Longrightarrow>
   handle_response r =
     Inl (ShopAPIError (PStr ''http_error'')
           (PStr (''HTTP '' @ str_int (status_code r) @ '': '' @ body_text r)) PNone)"
  by (simp add: handle_response_def)

lemma handle_response_error:
  "400 \<le> status_code r \<Longrightarrow> \<exists>e. handle_response r = Inl e"
  by (auto simp: handle_response_def split: option.splits pyval.splits)

text \<open>C7: when the response has status 204 the call succeeds with the empty object
  \<open>{}\<close>, whatever the body is: the result does not depend on \<open>json_result\<close>, so no decoding
  of the body is involved. This holds for a 204 answered at once (one attempt, no delay)
  and for a 204 that \<open>session.request\<close> returns after any number of attempts.\<close>

theorem no_content_empty_object:
  assumes "status_code r = 204"
  shows "handle_response r = Inr (PDict []) \<and>
         request self a (Got r # rest) = Some (Inr (PDict []), \<lparr>attempts = 1, sleeps = []\<rparr>) \<and>
         (\<forall>script tr.
            urlopen (http_method a) (session_retries self) script \<lparr>attempts = 0, sleeps = []\<rparr>
              = Some (Inr r, tr) \<longrightarrow>
            request self a script = Some (Inr (PDict []), tr))"
proof -
  have h: "handle_response r = Inr (PDict [])"
    using assms by (simp add: handle_response_def)
  have nr: "\<not> is_retry (session_retries self) (http_method a) (status_code r)
              (retry_after r \<noteq> None)"
    using assms by (simp add: is_retry_def status_forcelist_def RETRY_AFTER_STATUS_CODES_def)
  have one: "request self a (Got r # rest) =
               Some (Inr (PDict []), \<lparr>attempts = 1, sleeps = []\<rparr>)"
    unfolding request_def urlopen_returns_at_once [OF nr] by (simp add: h)
  show ?thesis
    using h one by (simp add: request_def)
qed

text \<open>C7 at \<open>products.delete("p1")\<close> answered by a 204 with an empty body that is not JSON.\<close>

theorem no_content_empty_object_witness:
  "request (ShopClient_init ''key'' None None None) (ProductsAPI_delete ''p1'')
     [Got \<lparr>status_code = 204, body_text = [], json_result = None, retry_after = None\<rparr>] =
   Some (Inr (PDict []), \<lparr>attempts = 1, sleeps = []\<rparr>)"
  using no_content_empty_object
    [of "\<lparr>status_code = 204, body_text = [], json_result = None, retry_after = None\<rparr>"
        "ShopClient_init ''key'' None None None" "ProductsAPI_delete ''p1''" "[]"]
  by simp

text \<open>C2, the failing input: a 400 response whose body is the JSON array \<open>[]\<close>. The body
  parses as JSON, \<open>error_data.get\<close> does not exist on a list, and the \<open>AttributeError\<close> is
  not a \<open>ValueError\<close>, so it leaves \<open>_request\<close> instead of a \<open>ShopAPIError\<close>. (For a JSON
  object and for a body that is not JSON the typed error is raised as the claim says:
  \<open>handle_response_error_object\<close>, \<open>handle_response_error_not_json\<close>.)\<close>

theorem error_body_not_an_object:
  "request (ShopClient_init ''key'' None None None) (ProductsAPI_list None None None None None)
     [Got \<lparr>status_code = 400, body_text = ''[]'', json_result = Some (PList []),
           retry_after = None\<rparr>] =
   Some (Inl AttributeError, \<lparr>attempts = 1, sleeps = []\<rparr>)"
  by (simp add: request_def ShopClient_init_def Retry_init_def ProductsAPI_list_def Let_def
      is_retry_def status_forcelist_def
      RETRY_AFTER_STATUS_CODES_def handle_response_def)

text \<open>C5 as amended: a response with a status of 400 or more outside the force list
  \<open>{429, 500, 502, 503, 504}\<close>, other than a 413 that carries a \<open>Retry-After\<close> header, is
  answered to the caller after exactly one attempt and with no delay; the call fails, and
  the failure is the typed \<open>ShopAPIError\<close> when the body is a JSON object or is not JSON.\<close>

theorem non_retryable_status_once:
  assumes "400 \<le> status_code r" and "status_code r \<notin> set status_forcelist"
    and "status_code r = 413 \<longrightarrow> retry_after r = None"
  shows "request self a (Got r # rest) =
           Some (handle_response r, \<lparr>attempts = 1, sleeps = []\<rparr>) \<and>
         (\<exists>e. handle_response r = Inl e) \<and>
         (json_result r = None \<or> (\<exists>d. json_result r = Some (PDict d)) \<longrightarrow>
            (\<exists>c m d. handle_response r = Inl (ShopAPIError c m d)))"
proof -
  have nr: "\<not> is_retry (session_retries self) (http_method a) (status_code r)
              (retry_after r \<noteq> None)"
    using assms(2,3)
    by (auto simp: is_retry_def status_forcelist_def RETRY_AFTER_STATUS_CODES_def)
  have one: "request self a (Got r # rest) =
               Some (handle_response r, \<lparr>attempts = 1, sleeps = []\<rparr>)"
    unfolding request_def urlopen_returns_at_once [OF nr] by simp
  have typed: "\<exists>c m d. handle_response r = Inl (ShopAPIError c m d)"
    if "json_result r = None \<or> (\<exists>d. json_result r = Some (PDict d))"
    using that assms(1) handle_response_error_object handle_response_error_not_json
    by blast
  show ?thesis
    using one handle_response_error [OF assms(1)] typed by blast
qed

text \<open>The amended C5 at a 404 with the body \<open>{"code": "not_found"}\<close>.\<close>

theorem non_retryable_status_once_witness:
  "request (ShopClient_init ''key'' None None None) (ProductsAPI_list None None None None None)
     (Got \<lparr>status_code = 404, body_text = ''not here'',
           json_result = Some (PDict [(''code'', PStr ''not_found'')]), retry_after = None\<rparr>
      # [])
   = Some (Inl (ShopAPIError (PStr ''not_found'') (PStr ''not here'') PNone),
           \<lparr>attempts = 1, sleeps = []\<rparr>)"
  using non_retryable_status_once
    [of "\<lparr>status_code = 404, body_text = ''not here'',
           json_result = Some (PDict [(''code'', PStr ''not_found'')]), retry_after = None\<rparr>"
        "ShopClient_init ''key'' None None None" "ProductsAPI_list None None None None None" "[]"]
  by (simp add: status_forcelist_def handle_response_def dict_get_def)

text \<open>C5, the claim as stated: 413 is a 4xx status outside the retry set, and yet a GET
  answered by a 413 with \<open>Retry-After: 5\<close> is attempted a second time, after the five
  seconds the header asks for (the library's \<open>respect_retry_after_header\<close>, which the SDK
  leaves on); here the second attempt succeeds.\<close>

theorem payload_too_large_retried:
  "request (ShopClient_init ''key'' None None None) (ProductsAPI_list None None None None None)
     [Got \<lparr>status_code = 413, body_text = ''slow down'', json_result = None,
           retry_after = Some 5\<rparr>,
      Got \<lparr>status_code = 200, body_text = ''{}'', json_result = Some (PDict []),
           retry_after = None\<rparr>] =
   Some (Inr (PDict []), \<lparr>attempts = 2, sleeps = [5]\<rparr>)"
  by (simp add: request_def ShopClient_init_def Retry_init_def ProductsAPI_list_def Let_def
      is_retry_def status_forcelist_def
      RETRY_AFTER_STATUS_CODES_def handle_response_def increment_def is_exhausted_def
      sleep_def)


subsection \<open>The retry loop\<close>










section \<open>Order decoding\<close>

lemma OrderStatus_of_member: "OrderStatus_of (PStr (OrderStatus_value m)) = Inr (PStatus m)"
  by (cases m) (simp_all add: OrderStatus_of_def OrderStatus_members_def)

lemma OrderStatus_of_unknown:
  "s \<notin> set (map OrderStatus_value OrderStatus_members) \<Longrightarrow> OrderStatus_of (PStr s) = Inl ValueError"
proof -
  assume "s \<notin> set (map OrderStatus_value OrderStatus_members)"
  then have "find (\<lambda>m. OrderStatus_value m = s) OrderStatus_members = None"
    by (auto simp: find_None_iff)
  then show ?thesis
    by (simp add: OrderStatus_of_def)
qed

text \<open>A dataclass instance holds, for each field without a default, the value the keyword
  arguments gave for it.\<close>

lemma dataclass_init_field:
  assumes "dataclass_init c req dfl (PDict kw) = Inr ob" and "f \<in> set req"
  shows "field ob f = dict_get kw f"
proof -
  let ?g = "\<lambda>f. case dict_get kw f of None \<Rightarrow> PNone | Some v \<Rightarrow> v"
  have all: "list_all (\<lambda>f. f \<in> set (dict_keys kw)) req"
    and ob: "ob = PObject c (map (\<lambda>f. (f, ?g f)) req @
              map (\<lambda>(f, d). (f, case dict_get kw f of None \<Rightarrow> d | Some v \<Rightarrow> v)) dfl)"
    using assms(1) by (auto simp: dataclass_init_def split: if_splits)
  from all assms(2) have "f \<in> set (dict_keys kw)"
    by (auto simp: list_all_iff)
  then have "map_of kw f \<noteq> None"
    by (simp add: dict_keys_def map_of_eq_None_iff)
  then obtain v where v: "dict_get kw f = Some v"
    by (auto simp: dict_get_def)
  have "map_of (map (\<lambda>f. (f, ?g f)) req) f = Some (?g f)"
    using assms(2) by (induction req) auto
  with v show ?thesis
    by (simp add: ob field_def dict_get_def)
qed

lemma Order_from_dict_status:
  assumes "dict_get d ''status'' = Some (PStr (OrderStatus_value m))"
    and "Order_from_dict (PDict d) = Inr ob"
  shows "field ob ''status'' = Some (PStatus m)"
proof -
  from assms obtain d4 where init: "Order_init (PDict d4) = Inr ob"
    and st: "dict_get d4 ''status'' = Some (PStatus m)"
    by (auto simp: Order_from_dict_def bind_Inr_iff get_item_def set_item_def
        OrderStatus_of_member dict_get_dict_set split: pyval.splits option.splits)
  have "field ob ''status'' = dict_get d4 ''status''"
    using init unfolding Order_init_def by (rule dataclass_init_field) simp
  with st show ?thesis by simp
qed

lemma sample_order_decodes:
  "\<exists>ob. Order_from_dict (sample_order (OrderStatus_value m)) = Inr ob \<and>
         field ob ''status'' = Some (PStatus m)"
  by (cases m)
     (simp_all add: Order_from_dict_def sample_order_def sample_address_def get_item_def
      set_item_def dict_get_def dict_set_def OrderStatus_of_def OrderStatus_members_def
      Address_init_def OrderItem_init_def Order_init_def dataclass_init_def dict_keys_def
      field_def)

text \<open>C4: when the \<open>status\<close> entry of the raw object is a string that is not the value of
  a member of \<open>OrderStatus\<close>, \<open>Order.from_dict\<close> raises \<open>ValueError\<close>, whatever the rest of
  the object is, so no order comes back, with a default status or any other. The value
  of a member \<open>m\<close> is decoded to \<open>m\<close>; an order that \<open>from_dict\<close> returns for a raw object
  with that status string has the status \<open>m\<close>; and for every member a well-formed raw
  order with its string is decoded.\<close>

theorem order_status_closed:
  "(dict_get d ''status'' = Some (PStr s) \<and>
      s \<notin> set (map OrderStatus_value OrderStatus_members) \<longrightarrow>
      Order_from_dict (PDict d) = Inl ValueError) \<and>
   OrderStatus_of (PStr (OrderStatus_value m)) = Inr (PStatus m) \<and>
   (dict_get d' ''status'' = Some (PStr (OrderStatus_value m)) \<longrightarrow>
      (\<forall>ob. Order_from_dict (PDict d') = Inr ob \<longrightarrow> field ob ''status'' = Some (PStatus m))) \<and>
   (\<exists>ob. Order_from_dict (sample_order (OrderStatus_value m)) = Inr ob \<and>
         field ob ''status'' = Some (PStatus m))"
proof -
  have bad: "Order_from_dict (PDict d) = Inl ValueError"
    if "dict_get d ''status'' = Some (PStr s)"
      and "s \<notin> set (map OrderStatus_value OrderStatus_members)"
    using that by (simp add: Order_from_dict_def get_item_def OrderStatus_of_unknown)
  show ?thesis
    using bad OrderStatus_of_member Order_from_dict_status sample_order_decodes by blast
qed

text \<open>C4 at the status strings \<open>"archived"\<close> and \<open>"shipped"\<close> of an otherwise well-formed
  order.\<close>

theorem order_status_closed_witness:
  "Order_from_dict (sample_order ''archived'') = Inl ValueError \<and>
   OrderStatus_of (PStr ''shipped'') = Inr (PStatus SHIPPED) \<and>
   (\<exists>ob. Order_from_dict (sample_order ''shipped'') = Inr ob \<and>
         field ob ''status'' = Some (PStatus SHIPPED))"
  using
    order_status_closed [where s = "''archived''" and m = SHIPPED
      and d = "sent_fields (sample_order ''archived'')"
      and d' = "sent_fields (sample_order ''shipped'')"]
  by (simp add: sample_order_def dict_get_def OrderStatus_members_def)

section \<open>Signature verification\<close>

lemma hexdigit_ascii: "n < 16 \<Longrightarrow> hexdigit n < 128"
  by (simp add: hexdigit_def)

lemma byte_high_digit: "unat (b :: 8 word) div 16 < 16"
proof -
  have "unat b < 2 ^ LENGTH(8)"
    by (rule unsigned_less)
  then show ?thesis by simp
qed

lemma hexdigest_ascii: "is_ascii (hexdigest bs)"
  by (induction bs) (simp_all add: is_ascii_def hexdigest_def hexdigit_ascii byte_high_digit)

lemma length_hexdigest: "length (hexdigest bs) = 2 * length bs"
  by (induction bs) (simp_all add: hexdigest_def)

lemma encode_char_ok: "\<not> is_surrogate c \<Longrightarrow> \<exists>b. encode_char c = Inr b"
  by (simp add: encode_char_def)

lemma encode_ok: "list_all (\<lambda>c. \<not> is_surrogate c) s \<Longrightarrow> \<exists>bs. encode s = Inr bs"
proof (induction s)
  case Nil
  then show ?case by simp
next
  case (Cons c s)
  then obtain b bs where "encode_char c = Inr b" "encode s = Inr bs"
    using encode_char_ok [of c] by auto
  then show ?case by simp
qed

lemma encode_surrogate:
  "\<not> list_all (\<lambda>c. \<not> is_surrogate c) s \<Longrightarrow> encode s = Inl UnicodeEncodeError"
proof (induction s)
  case Nil
  then show ?case by simp
next
  case (Cons c s)
  show ?case
  proof (cases "is_surrogate c")
    case True
    then have "encode_char c = Inl UnicodeEncodeError"
      by (simp add: encode_char_def is_surrogate_def)
    then show ?thesis by simp
  next
    case False
    then obtain b where b: "encode_char c = Inr b"
      using encode_char_ok by blast
    from False Cons.prems have "\<not> list_all (\<lambda>c. \<not> is_surrogate c) s"
      by simp
    then have "encode s = Inl UnicodeEncodeError"
      by (rule Cons.IH)
    with b show ?thesis by simp
  qed
qed

lemma verify_signature_encoded:
  "encode secret = Inr key \<Longrightarrow> encode payload = Inr msg \<Longrightarrow>
   verify_signature H payload signature secret =
     (if is_ascii signature then Inr (signature = hexdigest (H key msg)) else Inl TypeError)"
  by (simp add: verify_signature_def compare_digest_def hexdigest_ascii)

text \<open>Whatever function computes the digest, \<open>verify_signature\<close> returns \<open>True\<close> exactly when
  secret and payload can be encoded and the signature is the hexadecimal digest.\<close>

lemma verify_signature_true_iff:
  "verify_signature H payload signature secret = Inr True \<longleftrightarrow>
     (\<exists>key msg. encode secret = Inr key \<and> encode payload = Inr msg \<and>
        signature = hexdigest (H key msg))"
  by (auto simp: verify_signature_def compare_digest_def hexdigest_ascii bind_Inr_iff
      split: if_splits)

subsection \<open>Mutations\<close>

lemma flip_bit_neq: "flip_bit i (c::nat) \<noteq> c"
proof
  assume "flip_bit i c = c"
  then have "bit (flip_bit i c) i = bit c i" by simp
  then show False by (simp add: bit_flip_bit_iff)
qed

lemma flip_at_neq: "j < length s \<Longrightarrow> flip_at j i s \<noteq> s"
proof
  assume j: "j < length s" and eq: "flip_at j i s = s"
  then have "flip_at j i s ! j = s ! j" by simp
  with j show False by (simp add: flip_at_def flip_bit_neq)
qed

lemma flip_bit_low: "(c::nat) < 128 \<Longrightarrow> i < 7 \<Longrightarrow> flip_bit i c < 128"
proof -
  assume c: "c < 128" and i: "i < 7"
  from c have "take_bit 7 c = c" by (simp add: take_bit_nat_eq_self_iff)
  then have "take_bit 7 (flip_bit i c) = flip_bit i c"
    using i by (simp add: take_bit_flip_bit_eq)
  then show ?thesis
    by (simp add: take_bit_nat_eq_self_iff)
qed

lemma flip_bit_high: "(c::nat) < 128 \<Longrightarrow> 7 \<le> i \<Longrightarrow> 128 \<le> flip_bit i c"
proof -
  assume c: "c < 128" and i: "7 \<le> i"
  have p: "(2::nat) ^ 7 \<le> 2 ^ i"
    using i by (rule power_increasing) simp
  with c have "c < 2 ^ i" by simp
  then have "\<not> bit c i"
    by (simp add: bit_iff_odd)
  then have b: "bit (flip_bit i c) i"
    by (simp add: bit_flip_bit_iff)
  have "2 ^ i \<le> flip_bit i c"
  proof (rule ccontr)
    assume "\<not> 2 ^ i \<le> flip_bit i c"
    then have "flip_bit i c div 2 ^ i = 0" by simp
    with b show False by (simp add: bit_iff_odd)
  qed
  with p show ?thesis by simp
qed

lemma is_ascii_flip_at:
  assumes "is_ascii s" and "j < length s"
  shows "is_ascii (flip_at j i s) \<longleftrightarrow> i < 7"
proof -
  have c: "s ! j < 128"
    using assms by (simp add: is_ascii_def list_all_length)
  have "is_ascii (flip_at j i s) \<longleftrightarrow> flip_bit i (s ! j) < 128"
    using assms
    by (auto simp: is_ascii_def flip_at_def list_all_length nth_list_update)
  also have "\<dots> \<longleftrightarrow> i < 7"
    using flip_bit_low [OF c, of i] flip_bit_high [OF c, of i] by (cases "i < 7") auto
  finally show ?thesis .
qed

lemma hexdigit_inj: "n < 16 \<Longrightarrow> m < 16 \<Longrightarrow> hexdigit n = hexdigit m \<Longrightarrow> n = m"
  by (simp add: hexdigit_def split: if_splits)

lemma byte_eqI:
  fixes x y :: "8 word"
  assumes "unat x div 16 = unat y div 16" and "unat x mod 16 = unat y mod 16"
  shows "x = y"
proof -
  have "unat x = unat y"
    using assms by (metis div_mult_mod_eq)
  then show ?thesis by (simp add: word_unat_eq_iff)
qed

lemma hexdigest_inj: "hexdigest a = hexdigest b \<Longrightarrow> a = b"
proof (induction a arbitrary: b)
  case Nil
  then show ?case by (cases b) (simp_all add: hexdigest_def)
next
  case (Cons x a)
  then obtain y b' where b: "b = y # b'"
    by (cases b) (simp_all add: hexdigest_def)
  from Cons.prems b have d: "hexdigit (unat x div 16) = hexdigit (unat y div 16)"
    "hexdigit (unat x mod 16) = hexdigit (unat y mod 16)" and r: "hexdigest a = hexdigest b'"
    by (simp_all add: hexdigest_def)
  have "unat x div 16 = unat y div 16"
    by (rule hexdigit_inj [OF byte_high_digit byte_high_digit d(1)])
  moreover have "unat x mod 16 = unat y mod 16"
    by (rule hexdigit_inj [OF _ _ d(2)]) simp_all
  ultimately have "x = y" by (rule byte_eqI)
  with Cons.IH [OF r] b show ?case by simp
qed

text \<open>C3 as amended, for every digest function \<open>H\<close> in the place of HMAC-SHA256:
  \<^item> \<open>verify_signature\<close> returns \<open>True\<close> if and only if secret and payload can be encoded
    and the signature equals the lower-case hexadecimal digest of the payload bytes keyed
    by the secret bytes;
  \<^item> its result is the result of \<open>hmac.compare_digest\<close> on the signature and that digest
    (the time the comparison takes has no counterpart in the model);
  \<^item> when a signature verifies, any other signature string does not: the result is \<open>False\<close>
    when that string is ASCII and \<open>TypeError\<close> is raised when it is not; in particular,
    flipping bit \<open>i\<close> of one character of the signature gives \<open>False\<close> for \<open>i < 7\<close> and raises
    \<open>TypeError\<close> for \<open>i \<ge> 7\<close>;
  \<^item> when a signature verifies, the same signature with another payload or secret (that
    can be encoded; a single-bit mutation is a case of it) yields \<open>False\<close> exactly when the
    digest of the changed input differs from the original digest.\<close>

theorem signature_verification:
  "(verify_signature H payload signature secret = Inr True \<longleftrightarrow>
      (\<exists>key msg. encode secret = Inr key \<and> encode payload = Inr msg \<and>
         signature = hexdigest (H key msg))) \<and>
   (encode secret = Inr key \<and> encode payload = Inr msg \<longrightarrow>
      verify_signature H payload signature secret =
        compare_digest signature (hexdigest (H key msg))) \<and>
   (verify_signature H payload signature secret = Inr True \<and> s' \<noteq> signature \<longrightarrow>
      verify_signature H payload s' secret =
        (if is_ascii s' then Inr False else Inl TypeError)) \<and>
   (verify_signature H payload signature secret = Inr True \<and> j < length signature \<longrightarrow>
      verify_signature H payload (flip_at j i signature) secret =
        (if i < 7 then Inr False else Inl TypeError)) \<and>
   (verify_signature H payload signature secret = Inr True \<and>
    encode secret = Inr key \<and> encode payload = Inr msg \<and>
    encode secret' = Inr key' \<and> encode payload' = Inr msg' \<longrightarrow>
      verify_signature H payload' signature secret' = Inr (H key' msg' = H key msg))"
proof -
  have cmp: "verify_signature H payload signature secret =
        compare_digest signature (hexdigest (H key msg))"
    if "encode secret = Inr key" "encode payload = Inr msg"
    using that by (simp add: verify_signature_def)
  have other: "verify_signature H payload s' secret =
        (if is_ascii s' then Inr False else Inl TypeError)"
    if v: "verify_signature H payload signature secret = Inr True" and ne: "s' \<noteq> signature"
    for s'
  proof -
    from v obtain k m where e: "encode secret = Inr k" "encode payload = Inr m"
      and s: "signature = hexdigest (H k m)"
      unfolding verify_signature_true_iff by blast
    show ?thesis
      using ne s by (simp add: verify_signature_encoded [OF e])
  qed
  have flip: "verify_signature H payload (flip_at j i signature) secret =
        (if i < 7 then Inr False else Inl TypeError)"
    if v: "verify_signature H payload signature secret = Inr True" and j: "j < length signature"
  proof -
    from v have "is_ascii signature"
      unfolding verify_signature_true_iff using hexdigest_ascii by blast
    then have "is_ascii (flip_at j i signature) \<longleftrightarrow> i < 7"
      using j by (rule is_ascii_flip_at)
    then show ?thesis
      using other [OF v flip_at_neq [OF j, of i]] by simp
  qed
  have changed: "verify_signature H payload' signature secret' = Inr (H key' msg' = H key msg)"
    if v: "verify_signature H payload signature secret = Inr True"
      and e: "encode secret = Inr key" "encode payload = Inr msg"
      and e': "encode secret' = Inr key'" "encode payload' = Inr msg'"
  proof -
    from v e have s: "signature = hexdigest (H key msg)"
      unfolding verify_signature_true_iff by auto
    then have "is_ascii signature"
      by (simp add: hexdigest_ascii)
    then show ?thesis
      using s hexdigest_inj [of "H key msg" "H key' msg'"]
      by (auto simp: verify_signature_encoded [OF e'])
  qed
  show ?thesis
    using verify_signature_true_iff [of H payload signature secret] cmp other flip changed
    by blast
qed

text \<open>The amended C3 at payload \<open>"hi"\<close>, secret \<open>"k"\<close> and the signature \<open>"6b6869"\<close>, with the
  concatenation of key and message standing in for the digest: the signature verifies;
  with bit 0 of its last character flipped it yields \<open>False\<close>; with bit 7 of its first
  character flipped it raises; and with bit 0 of the payload's last character flipped the
  result is \<open>False\<close>.\<close>

theorem signature_verification_witness:
  "verify_signature (\<lambda>key msg. key @ msg) [104, 105] [54, 98, 54, 56, 54, 57] [107] = Inr True \<and>
   verify_signature (\<lambda>key msg. key @ msg) [104, 105] (flip_at 5 0 [54, 98, 54, 56, 54, 57])
     [107] = Inr False \<and>
   verify_signature (\<lambda>key msg. key @ msg) [104, 105] (flip_at 0 7 [54, 98, 54, 56, 54, 57])
     [107] = Inl TypeError \<and>
   verify_signature (\<lambda>key msg. key @ msg) (flip_at 1 0 [104, 105]) [54, 98, 54, 56, 54, 57]
     [107] = Inr False"
proof -
  let ?H = "\<lambda>key msg :: bytes. key @ msg"
  let ?s = "[54, 98, 54, 56, 54, 57] :: pystr"
  have v: "verify_signature ?H [104, 105] ?s [107] = Inr True"
    by (simp add: verify_signature_def compare_digest_def is_ascii_def encode_char_def
        hexdigest_def hexdigit_def)
  have e: "encode [107] = Inr [107]" "encode [104, 105] = Inr [104, 105]"
    "encode (flip_at 1 0 [104, 105]) = Inr [104, 104]"
    by (simp_all add: encode_char_def flip_at_def flip_bit_eq_xor)
  have low: "verify_signature ?H [104, 105] (flip_at 5 0 ?s) [107] = Inr False"
    using v
      signature_verification [where H = ?H and payload = "[104, 105]" and signature = ?s
        and secret = "[107]" and j = 5 and i = 0,
        THEN conjunct2, THEN conjunct2, THEN conjunct2, THEN conjunct1]
    by simp
  have high: "verify_signature ?H [104, 105] (flip_at 0 7 ?s) [107] = Inl TypeError"
    using v
      signature_verification [where H = ?H and payload = "[104, 105]" and signature = ?s
        and secret = "[107]" and j = 0 and i = 7,
        THEN conjunct2, THEN conjunct2, THEN conjunct2, THEN conjunct1]
    by simp
  have changed: "verify_signature ?H (flip_at 1 0 [104, 105]) ?s [107] = Inr False"
    using v e
      signature_verification [where H = ?H and payload = "[104, 105]" and signature = ?s
        and secret = "[107]" and key = "[107]" and msg = "[104, 105]" and secret' = "[107]"
        and payload' = "flip_at 1 0 [104, 105]" and key' = "[107]" and msg' = "[104, 104]",
        THEN conjunct2, THEN conjunct2, THEN conjunct2, THEN conjunct2]
    by simp
  show ?thesis
    using v low high changed by simp
qed

text \<open>C3, the claim as stated: a single-bit mutation of the signature does not always
  return false. Flipping bit 7 of the first character of \<open>"6b6869"\<close> gives a string that
  starts with the code point 182, and for that signature \<open>verify_signature\<close> raises
  \<open>TypeError\<close> whatever the digest function is.\<close>

theorem flipped_signature_raises:
  "verify_signature (\<lambda>key msg. key @ msg) [104, 105] [54, 98, 54, 56, 54, 57] [107] = Inr True \<and>
   flip_at 0 7 [54, 98, 54, 56, 54, 57] = [182, 98, 54, 56, 54, 57] \<and>
   (\<forall>H. verify_signature H [104, 105] [182, 98, 54, 56, 54, 57] [107] = Inl TypeError)"
  by (simp add: verify_signature_def compare_digest_def is_ascii_def encode_char_def
      hexdigest_def hexdigit_def flip_at_def flip_bit_eq_xor push_bit_eq_mult)

subsection \<open>Malformed input\<close>

text \<open>C9 as amended: for a payload and a secret without a lone surrogate (those are the
  strings UTF-8 can encode) and an ASCII signature, \<open>verify_signature\<close> returns a boolean,
  true exactly when the signature is the hexadecimal digest, hence false for a signature
  of another length or content; for a signature with a non-ASCII character it raises
  \<open>TypeError\<close>; and for a payload or a secret with a lone surrogate it raises
  \<open>UnicodeEncodeError\<close>.\<close>

theorem verify_signature_returns:
  "(list_all (\<lambda>c. \<not> is_surrogate c) payload \<and> list_all (\<lambda>c. \<not> is_surrogate c) secret \<longrightarrow>
      (\<exists>key msg. encode secret = Inr key \<and> encode payload = Inr msg \<and>
         (is_ascii signature \<longrightarrow>
            verify_signature H payload signature secret =
              Inr (signature = hexdigest (H key msg)) \<and>
            (length signature \<noteq> 2 * length (H key msg) \<longrightarrow>
               verify_signature H payload signature secret = Inr False)) \<and>
         (\<not> is_ascii signature \<longrightarrow>
            verify_signature H payload signature secret = Inl TypeError))) \<and>
   (\<not> (list_all (\<lambda>c. \<not> is_surrogate c) payload \<and>
        list_all (\<lambda>c. \<not> is_surrogate c) secret) \<longrightarrow>
      verify_signature H payload signature secret = Inl UnicodeEncodeError)"
proof -
  have good: "\<exists>key msg. encode secret = Inr key \<and> encode payload = Inr msg \<and>
         (is_ascii signature \<longrightarrow>
            verify_signature H payload signature secret =
              Inr (signature = hexdigest (H key msg)) \<and>
            (length signature \<noteq> 2 * length (H key msg) \<longrightarrow>
               verify_signature H payload signature secret = Inr False)) \<and>
         (\<not> is_ascii signature \<longrightarrow>
            verify_signature H payload signature secret = Inl TypeError)"
    if ok: "list_all (\<lambda>c. \<not> is_surrogate c) payload" "list_all (\<lambda>c. \<not> is_surrogate c) secret"
  proof -
    obtain key msg where e: "encode secret = Inr key" "encode payload = Inr msg"
      using ok encode_ok by blast
    have "length signature \<noteq> 2 * length (H key msg) \<Longrightarrow>
          signature \<noteq> hexdigest (H key msg)"
      using length_hexdigest by auto
    then show ?thesis
      using e verify_signature_encoded [OF e, of H signature] by auto
  qed
  have bad: "verify_signature H payload signature secret = Inl UnicodeEncodeError"
    if "\<not> (list_all (\<lambda>c. \<not> is_surrogate c) payload \<and>
             list_all (\<lambda>c. \<not> is_surrogate c) secret)"
  proof (cases "list_all (\<lambda>c. \<not> is_surrogate c) secret")
    case True
    then obtain key where "encode secret = Inr key"
      using encode_ok by blast
    moreover from True that have "encode payload = Inl UnicodeEncodeError"
      by (simp add: encode_surrogate)
    ultimately show ?thesis
      by (simp add: verify_signature_def)
  next
    case False
    then have "encode secret = Inl UnicodeEncodeError"
      by (rule encode_surrogate)
    then show ?thesis
      by (simp add: verify_signature_def)
  qed
  show ?thesis
    using good bad by blast
qed

text \<open>The amended C9 at payload \<open>"hi"\<close> and secret \<open>"k"\<close>, with the concatenation of key and
  message standing in for the digest (its hexadecimal form is \<open>"6b6869"\<close>): the right
  signature, one that is too short and one with a wrong last digit.\<close>

theorem verify_signature_returns_witness:
  "verify_signature (\<lambda>key msg. key @ msg) [104, 105] [54, 98, 54, 56, 54, 57] [107] = Inr True \<and>
   verify_signature (\<lambda>key msg. key @ msg) [104, 105] [54, 98, 54, 56] [107] = Inr False \<and>
   verify_signature (\<lambda>key msg. key @ msg) [104, 105] [54, 98, 54, 56, 54, 48] [107] = Inr False"
  using
    verify_signature_returns [of "[104, 105]" "[107]" "[54, 98, 54, 56, 54, 57]"
      "\<lambda>key msg. key @ msg"]
    verify_signature_returns [of "[104, 105]" "[107]" "[54, 98, 54, 56]" "\<lambda>key msg. key @ msg"]
    verify_signature_returns [of "[104, 105]" "[107]" "[54, 98, 54, 56, 54, 48]"
      "\<lambda>key msg. key @ msg"]
  by (simp add: is_surrogate_def is_ascii_def encode_char_def hexdigest_def hexdigit_def)

text \<open>C9, the claim as stated: \<open>verify_signature\<close> does raise on malformed input. Whatever
  the digest function is, the one-character signature with code point 233 (e acute) makes
  \<open>hmac.compare_digest\<close> raise \<open>TypeError\<close>, and a payload that is a lone surrogate
  (code point 55296) makes \<open>payload.encode()\<close> raise \<open>UnicodeEncodeError\<close>.\<close>

theorem verify_signature_raises:
  "\<forall>H. verify_signature H [104, 105] [233] [107] = Inl TypeError \<and>
       verify_signature H [55296] [54, 98] [107] = Inl UnicodeEncodeError"
  by (simp add: verify_signature_def compare_digest_def is_ascii_def encode_char_def
      is_surrogate_def)

end
